theory Spec2Isabelle
  imports Main "HOL-Library.AList"
begin

section \<open>The asynchronous Modbus server (pymodbus/server/async.py)\<close>

text \<open>
  The module is the glue between a transport, a framer, a decoder and a datastore. The
  classes it imports (requests and responses, the framers, the datastore context, the
  control block) are not part of the module: their behaviour enters the model as the
  fields of a record of collaborators, so that every theorem holds for whatever those
  classes compute. Python objects whose identity matters (datastore contexts, framer
  instances) live in a heap and are named by references.
\<close>

subsection \<open>Values\<close>

type_synonym ref = nat

text \<open>A Python 2 \<open>str\<close>: a sequence of 8-bit characters.\<close>

type_synonym bytes = string

text \<open>
  Instances of \<open>Exception\<close>, the class named by the clause \<open>except Exception, ex\<close>.
  \<open>NoSuchSlave\<close> is what indexing the datastore context raises for an absent unit,
  \<open>AttributeError\<close> a read of an attribute that was never assigned, \<open>KeyError\<close> a
  missing dictionary key, \<open>ReferenceError\<close> a reference that names no object of the
  heap, \<open>UnicodeError\<close> a text that cannot be encoded, and \<open>ModbusException\<close> any
  other failure raised by the datastore while it executes a request.
\<close>

datatype Exception =
    NoSuchSlave int
  | AttributeError string
  | KeyError string
  | ReferenceError ref
  | UnicodeError string
  | ModbusException string

text \<open>
  What a \<open>raise\<close> can raise: an instance of \<open>Exception\<close>, or one of the objects that are
  not instances of it, which the clause \<open>except Exception, ex\<close> does not catch: the
  other subclasses of \<open>BaseException\<close> and, in Python 2, instances of old-style
  classes.
\<close>

datatype raised =
    Exc Exception
  | KeyboardInterrupt
  | SystemExit
  | GeneratorExit
  | OldStyleInstance string

fun isinstance_Exception :: "raised \<Rightarrow> bool" where
  "isinstance_Exception (Exc ex) = True"
| "isinstance_Exception KeyboardInterrupt = False"
| "isinstance_Exception SystemExit = False"
| "isinstance_Exception GeneratorExit = False"
| "isinstance_Exception (OldStyleInstance name) = False"

text \<open>
  Modelled from the spec: \<open>pymodbus.pdu.ModbusExceptions\<close> (imported as \<open>merror\<close>) is
  not in the module; the module names its member \<open>SlaveFailure\<close>, the fixed
  "execution failure" code, and the other members are the remaining exception codes of
  the protocol.
\<close>

datatype ModbusExceptions =
    IllegalFunction
  | IllegalAddress
  | IllegalValue
  | SlaveFailure
  | Acknowledge
  | SlaveBusy
  | MemoryParityError
  | GatewayPathUnavailable
  | GatewayNoResponse

text \<open>
  Requests and responses share the correlation fields \<open>transaction_id\<close> and \<open>unit_id\<close>.
  A response carries either a result or an exception marker with its error code.
\<close>

datatype response_body =
    Result int "int list"
  | ExceptionResponse int ModbusExceptions

record pdu =
  transaction_id :: int
  unit_id :: int

record request = pdu +
  function_code :: int
  payload :: "int list"

record response = pdu +
  body :: response_body

datatype framer_class =
    ModbusSocketFramer
  | ModbusAsciiFramer
  | OtherFramer string

text \<open>
  Modelled from the spec: the datastore context \<open>ModbusServerContext\<close> is not in the
  module. It maps unit identifiers to the stores of the units, and indexing it by a unit
  that is not present fails.
\<close>

type_synonym 'ctx ModbusServerContext = "(int \<times> 'ctx) list"

definition ModbusServerContext_getitem ::
  "'ctx ModbusServerContext \<Rightarrow> int \<Rightarrow> raised + 'ctx" where
  "ModbusServerContext_getitem st uid =
     (case map_of st uid of None \<Rightarrow> Inl (Exc (NoSuchSlave uid)) | Some context \<Rightarrow> Inr context)"

text \<open>A framer instance: its class, the decoder it was constructed with, its state.\<close>

record 'fs Framer =
  fr_class :: framer_class
  fr_decoder :: ref
  fr_state :: 'fs

record 'id ModbusControlBlock =
  Identity :: 'id

text \<open>The value of the \<open>identity\<close> argument of the factory.\<close>

datatype 'id identity_arg =
    PyNone
  | ModbusDeviceIdentification 'id
  | OtherObject string

datatype log_entry =
    ClientConnected
  | ClientDisconnected
  | DataLogged bytes
  | DatastoreUnable string
  | SendLogged bytes
  | StartingSerial string

subsection \<open>Collaborators\<close>

text \<open>
  What the module calls and does not define:
  \<^item> \<open>request_execute\<close>: \<open>request.execute(context)\<close>, which returns a response or raises,
    and may have changed the unit's store in either case;
  \<^item> \<open>request_doException\<close>: \<open>request.doException(code)\<close>;
  \<^item> \<open>exception_str\<close>: the text of an exception, which \<open>"%s" % ex\<close> asks of the
    exception's class and which that class gives or fails to give;
  \<^item> \<open>framer_init\<close>: the constructor of a framer class, given the decoder;
  \<^item> \<open>framer_process\<close>: what \<open>processIncomingPacket\<close> does to the framer's state with a
    chunk of bytes, and the requests it decodes from it, in decoding order;
  \<^item> \<open>framer_buildPacket\<close>: \<open>buildPacket(message)\<close>;
  \<^item> \<open>context_truth\<close>: the truth value of a datastore context, decided by its class;
  \<^item> \<open>new_ModbusControlBlock\<close>: \<open>ModbusControlBlock()\<close>;
  \<^item> \<open>update_Identity\<close>: \<open>Identity.update(identity)\<close>;
  \<^item> \<open>Defaults_Baudrate\<close>: the constant \<open>Defaults.Baudrate\<close>.
\<close>

record ('ctx, 'fs, 'id) collaborators =
  request_execute :: "request \<Rightarrow> 'ctx \<Rightarrow> (raised + response) \<times> 'ctx"
  request_doException :: "request \<Rightarrow> ModbusExceptions \<Rightarrow> response"
  exception_str :: "Exception \<Rightarrow> raised + string"
  framer_init :: "framer_class \<Rightarrow> ref \<Rightarrow> 'fs"
  framer_process :: "framer_class \<Rightarrow> 'fs \<Rightarrow> bytes \<Rightarrow> request list \<times> 'fs"
  framer_buildPacket :: "framer_class \<Rightarrow> response \<Rightarrow> bytes"
  context_truth :: "'ctx ModbusServerContext \<Rightarrow> bool"
  new_ModbusControlBlock :: "'id ModbusControlBlock"
  update_Identity :: "'id \<Rightarrow> 'id \<Rightarrow> 'id"
  Defaults_Baudrate :: int

subsection \<open>State\<close>

text \<open>
  The heap: the datastore contexts and the framer instances, the next unused reference,
  and what was logged.
\<close>

record ('ctx, 'fs) world =
  stores :: "ref \<rightharpoonup> 'ctx ModbusServerContext"
  framers :: "ref \<rightharpoonup> 'fs Framer"
  next_ref :: ref
  log :: "log_entry list"

record 'id ModbusServerFactory =
  decoder :: ref
  framer :: framer_class
  store :: ref
  control :: "'id ModbusControlBlock"

text \<open>
  A \<open>ModbusProtocol\<close> instance: the factory that built it, its framer (unassigned until
  \<open>connectionMade\<close>), and the packets written to its transport so far.
\<close>

record 'id ModbusProtocol =
  factory :: "'id ModbusServerFactory"
  framer :: "ref option"
  transport :: "bytes list"

subsection \<open>ModbusProtocol\<close>

definition connectionMade ::
  "('ctx, 'fs, 'id) collaborators \<Rightarrow> ('ctx, 'fs) world \<Rightarrow> 'id ModbusProtocol \<Rightarrow>
     'id ModbusProtocol \<times> ('ctx, 'fs) world" where
  "connectionMade C w self =
     (let w1 = w\<lparr>log := log w @ [ClientConnected]\<rparr>;
          f = factory self;
          r = next_ref w1;
          instance = \<lparr>fr_class = ModbusServerFactory.framer f, fr_decoder = decoder f,
                      fr_state = framer_init C (ModbusServerFactory.framer f) (decoder f)\<rparr>
      in (self\<lparr>framer := Some r\<rparr>,
          w1\<lparr>framers := (framers w1)(r \<mapsto> instance), next_ref := Suc r\<rparr>))"

definition connectionLost ::
  "('ctx, 'fs) world \<Rightarrow> 'id ModbusProtocol \<Rightarrow> string \<Rightarrow>
     'id ModbusProtocol \<times> ('ctx, 'fs) world" where
  "connectionLost w self reason = (self, w\<lparr>log := log w @ [ClientDisconnected]\<rparr>)"

definition send ::
  "('ctx, 'fs, 'id) collaborators \<Rightarrow> ('ctx, 'fs) world \<Rightarrow> 'id ModbusProtocol \<Rightarrow> response \<Rightarrow>
     raised + 'id ModbusProtocol \<times> ('ctx, 'fs) world" where
  "send C w self message =
     (case ModbusProtocol.framer self of
        None \<Rightarrow> Inl (Exc (AttributeError ''framer''))
      | Some r \<Rightarrow>
          (case framers w r of
             None \<Rightarrow> Inl (Exc (ReferenceError r))
           | Some fr \<Rightarrow>
               (let pdu = framer_buildPacket C (fr_class fr) message
                in Inr (self\<lparr>transport := transport self @ [pdu]\<rparr>,
                        w\<lparr>log := log w @ [SendLogged pdu]\<rparr>))))"

text \<open>
  The body of the \<open>try\<close> of \<open>execute\<close>: the lookup of the unit in the factory's store and
  the execution of the request against it. The unit's store is an object the request
  works on in place, so what the execution left of it is in the heap afterwards,
  whether the execution returned or raised.
\<close>

definition lookup_and_execute ::
  "('ctx, 'fs, 'id) collaborators \<Rightarrow> ('ctx, 'fs) world \<Rightarrow> 'id ModbusProtocol \<Rightarrow> request \<Rightarrow>
     (raised + response) \<times> ('ctx, 'fs) world" where
  "lookup_and_execute C w self request =
     (let s = store (factory self)
      in case stores w s of
           None \<Rightarrow> (Inl (Exc (ReferenceError s)), w)
         | Some st \<Rightarrow>
             (case ModbusServerContext_getitem st (unit_id request) of
                Inl ex \<Rightarrow> (Inl ex, w)
              | Inr context \<Rightarrow>
                  (case request_execute C request context of
                     (outcome, context') \<Rightarrow>
                       (outcome,
                        w\<lparr>stores := (stores w)(s \<mapsto>
                             AList.update (unit_id request) context' st)\<rparr>))))"

text \<open>
  The \<open>try\<close> statement of \<open>execute\<close>. The clause \<open>except Exception, ex\<close> catches the
  instances of \<open>Exception\<close> and nothing else, so anything else the body raises leaves
  \<open>execute\<close>. The handler first formats its log message, which takes the text of the
  exception before the logger is called; when the exception's class fails to give that
  text, what it raises leaves \<open>execute\<close> as well, from inside the handler. Otherwise the
  handler makes the response with the code \<open>SlaveFailure\<close>.
\<close>

definition try_lookup_and_execute ::
  "('ctx, 'fs, 'id) collaborators \<Rightarrow> ('ctx, 'fs) world \<Rightarrow> 'id ModbusProtocol \<Rightarrow> request \<Rightarrow>
     raised + response \<times> ('ctx, 'fs) world" where
  "try_lookup_and_execute C w self request =
     (case lookup_and_execute C w self request of
        (Inr response, w1) \<Rightarrow> Inr (response, w1)
      | (Inl (Exc ex), w1) \<Rightarrow>
          (case exception_str C ex of
             Inl ex' \<Rightarrow> Inl ex'
           | Inr text \<Rightarrow>
               Inr (request_doException C request SlaveFailure,
                    w1\<lparr>log := log w1 @ [DatastoreUnable text]\<rparr>))
      | (Inl other, w1) \<Rightarrow> Inl other)"

text \<open>
  \<open>execute\<close> up to its last line: the \<open>try\<close> statement and the two assignments to the
  response. The result is the response handed to \<open>send\<close>, or what was raised before
  there was one.
\<close>

definition execute_response ::
  "('ctx, 'fs, 'id) collaborators \<Rightarrow> ('ctx, 'fs) world \<Rightarrow> 'id ModbusProtocol \<Rightarrow> request \<Rightarrow>
     raised + response \<times> ('ctx, 'fs) world" where
  "execute_response C w self request =
     (case try_lookup_and_execute C w self request of
        Inl ex \<Rightarrow> Inl ex
      | Inr (response, w2) \<Rightarrow>
          Inr (response\<lparr>transaction_id := transaction_id request,
                        unit_id := unit_id request\<rparr>, w2))"

definition execute ::
  "('ctx, 'fs, 'id) collaborators \<Rightarrow> ('ctx, 'fs) world \<Rightarrow> 'id ModbusProtocol \<Rightarrow> request \<Rightarrow>
     raised + 'id ModbusProtocol \<times> ('ctx, 'fs) world" where
  "execute C w self request =
     (case execute_response C w self request of
        Inl ex \<Rightarrow> Inl ex
      | Inr (response, w') \<Rightarrow> send C w' self response)"

text \<open>
  Modelled from the spec: \<open>processIncomingPacket(data, callback)\<close> belongs to the framer
  classes, which are not in the module. The framer takes the chunk into its state and
  invokes the callback once for each request it decodes, in decoding order; an exception
  raised by the callback ends the call.
\<close>

fun invoke_callback ::
  "('w \<Rightarrow> 'p \<Rightarrow> request \<Rightarrow> raised + 'p \<times> 'w) \<Rightarrow> request list \<Rightarrow> 'p \<Rightarrow> 'w \<Rightarrow>
     raised + 'p \<times> 'w" where
  "invoke_callback callback [] self w = Inr (self, w)"
| "invoke_callback callback (request # requests) self w =
     (case callback w self request of
        Inl ex \<Rightarrow> Inl ex
      | Inr (self', w') \<Rightarrow> invoke_callback callback requests self' w')"

definition processIncomingPacket ::
  "('ctx, 'fs, 'id) collaborators \<Rightarrow> ('ctx, 'fs) world \<Rightarrow> ref \<Rightarrow> 'fs Framer \<Rightarrow> bytes \<Rightarrow>
     (('ctx, 'fs) world \<Rightarrow> 'p \<Rightarrow> request \<Rightarrow> raised + 'p \<times> ('ctx, 'fs) world) \<Rightarrow> 'p \<Rightarrow>
     raised + 'p \<times> ('ctx, 'fs) world" where
  "processIncomingPacket C w r fr data callback self =
     (case framer_process C (fr_class fr) (fr_state fr) data of
        (requests, fs') \<Rightarrow>
          invoke_callback callback requests self
            (w\<lparr>framers := (framers w)(r \<mapsto> fr\<lparr>fr_state := fs'\<rparr>)\<rparr>))"

definition dataReceived ::
  "('ctx, 'fs, 'id) collaborators \<Rightarrow> ('ctx, 'fs) world \<Rightarrow> 'id ModbusProtocol \<Rightarrow> bytes \<Rightarrow>
     raised + 'id ModbusProtocol \<times> ('ctx, 'fs) world" where
  "dataReceived C w self data =
     (let w1 = w\<lparr>log := log w @ [DataLogged data]\<rparr>
      in case ModbusProtocol.framer self of
           None \<Rightarrow> Inl (Exc (AttributeError ''framer''))
         | Some r \<Rightarrow>
             (case framers w1 r of
                None \<Rightarrow> Inl (Exc (ReferenceError r))
              | Some fr \<Rightarrow> processIncomingPacket C w1 r fr data (execute C) self))"


text \<open>
  Collaborators that keep every failure within what the handler of \<open>execute\<close> deals
  with: a request's execution raises nothing but instances of \<open>Exception\<close>, and every
  exception has a text.
\<close>

definition contained :: "('ctx, 'fs, 'id) collaborators \<Rightarrow> bool" where
  "contained C \<longleftrightarrow>
     (\<forall>request context ex.
        fst (request_execute C request context) = Inl ex \<longrightarrow> isinstance_Exception ex) \<and>
     (\<forall>ex. \<exists>text. exception_str C ex = Inr text)"

subsection \<open>ModbusServerFactory\<close>

text \<open>
  Modelled from the spec: \<open>ModbusServerContext()\<close>, the constructor of the datastore
  context without arguments, is not in the module; it gives the empty context.
\<close>

definition ModbusServerContext_new :: "'ctx ModbusServerContext" where
  "ModbusServerContext_new = []"

fun isinstance_ModbusDeviceIdentification :: "'id identity_arg \<Rightarrow> bool" where
  "isinstance_ModbusDeviceIdentification (ModbusDeviceIdentification i) = True"
| "isinstance_ModbusDeviceIdentification PyNone = False"
| "isinstance_ModbusDeviceIdentification (OtherObject v) = False"

text \<open>
  \<open>__init__(self, store, framer=None, identity=None)\<close>. The arguments \<open>store\<close> and
  \<open>framer\<close> are \<open>None\<close> or an object; \<open>x or y\<close> is \<open>x\<close> when \<open>x\<close> is true and \<open>y\<close>
  otherwise, \<open>None\<close> is false, a class is true, and the truth of a datastore context is
  what its class makes it. The decoder and a context made here are new objects.
\<close>

definition ModbusServerFactory_init ::
  "('ctx, 'fs, 'id) collaborators \<Rightarrow> ('ctx, 'fs) world \<Rightarrow> ref option \<Rightarrow> framer_class option \<Rightarrow>
     'id identity_arg \<Rightarrow> raised + 'id ModbusServerFactory \<times> ('ctx, 'fs) world" where
  "ModbusServerFactory_init C w store_arg framer_arg identity =
     (let d = next_ref w;
          w1 = w\<lparr>next_ref := Suc d\<rparr>;
          fr = (case framer_arg of None \<Rightarrow> ModbusSocketFramer | Some cls \<Rightarrow> cls);
          fresh = (next_ref w1,
                   w1\<lparr>stores := (stores w1)(next_ref w1 \<mapsto> ModbusServerContext_new),
                      next_ref := Suc (next_ref w1)\<rparr>);
          cb = new_ModbusControlBlock C;
          cb' = (case identity of
                   ModbusDeviceIdentification i \<Rightarrow>
                     cb\<lparr>Identity := update_Identity C (Identity cb) i\<rparr>
                 | _ \<Rightarrow> cb)
      in case (case store_arg of
                 None \<Rightarrow> Inr fresh
               | Some r \<Rightarrow>
                   (case stores w1 r of
                      None \<Rightarrow> Inl (Exc (ReferenceError r))
                    | Some st \<Rightarrow> if context_truth C st then Inr (r, w1) else Inr fresh)) of
           Inl ex \<Rightarrow> Inl ex
         | Inr (s, w2) \<Rightarrow>
             Inr (\<lparr>decoder = d, framer = fr, store = s, control = cb'\<rparr>, w2))"

text \<open>
  \<open>buildProtocol\<close> is inherited from the transport library: it instantiates the
  factory's \<open>protocol\<close> class, here \<open>ModbusProtocol\<close>, and sets its \<open>factory\<close>.
\<close>

definition buildProtocol :: "'id ModbusServerFactory \<Rightarrow> 'id ModbusProtocol" where
  "buildProtocol f = \<lparr>factory = f, framer = None, transport = []\<rparr>"

subsection \<open>Starting the serial server\<close>

text \<open>An argument with a default value: left out by the caller, or given.\<close>

datatype 'a argument = Omitted | Given 'a

record 'id SerialPort =
  sp_protocol :: "'id ModbusProtocol"
  sp_device :: string
  sp_baudrate :: int

text \<open>
  \<open>StartSerialServer(context, identity=None, framer=ModbusAsciiFramer, **kwargs)\<close> up
  to the serial port it opens; its last statement hands control to the event loop of
  the transport library.
\<close>

definition StartSerialServer ::
  "('ctx, 'fs, 'id) collaborators \<Rightarrow> ('ctx, 'fs) world \<Rightarrow> ref option \<Rightarrow> 'id identity_arg \<Rightarrow>
     framer_class option argument \<Rightarrow> (string \<times> string) list \<Rightarrow>
     raised + 'id SerialPort \<times> ('ctx, 'fs) world" where
  "StartSerialServer C w context identity framer_arg kwargs =
     (case map_of kwargs ''device'' of
        None \<Rightarrow> Inl (Exc (KeyError ''device''))
      | Some device \<Rightarrow>
          (let w1 = w\<lparr>log := log w @ [StartingSerial device]\<rparr>;
               fr = (case framer_arg of Omitted \<Rightarrow> Some ModbusAsciiFramer | Given v \<Rightarrow> v)
           in case ModbusServerFactory_init C w1 context fr identity of
                Inl ex \<Rightarrow> Inl ex
              | Inr (f, w2) \<Rightarrow>
                  Inr (\<lparr>sp_protocol = buildProtocol f, sp_device = device,
                        sp_baudrate = Defaults_Baudrate C\<rparr>, w2)))"

subsection \<open>Connections\<close>

text \<open>
  Modelled from the spec: the listener that accepts connections and feeds them is the
  event loop of the transport library, which is not in the module. For each accepted
  connection it has the factory build a protocol and calls \<open>connectionMade\<close>, it hands
  the bytes that arrive on a connection to \<open>dataReceived\<close> of that connection's
  protocol, and on a disconnect it calls \<open>connectionLost\<close> and drops the protocol.
\<close>

record ('ctx, 'fs, 'id) server =
  heap :: "('ctx, 'fs) world"
  connections :: "nat \<rightharpoonup> 'id ModbusProtocol"

datatype event = Accept nat | Receive nat bytes | Close nat string

definition deliver ::
  "('ctx, 'fs, 'id) collaborators \<Rightarrow> 'id ModbusServerFactory \<Rightarrow> ('ctx, 'fs, 'id) server \<Rightarrow>
     event \<Rightarrow> raised + ('ctx, 'fs, 'id) server" where
  "deliver C f S ev =
     (case ev of
        Accept c \<Rightarrow>
          (case connectionMade C (heap S) (buildProtocol f) of
             (p, w) \<Rightarrow> Inr (S\<lparr>heap := w, connections := (connections S)(c \<mapsto> p)\<rparr>))
      | Receive c data \<Rightarrow>
          (case connections S c of
             None \<Rightarrow> Inr S
           | Some p \<Rightarrow>
               (case dataReceived C (heap S) p data of
                  Inl ex \<Rightarrow> Inl ex
                | Inr (p', w) \<Rightarrow>
                    Inr (S\<lparr>heap := w, connections := (connections S)(c \<mapsto> p')\<rparr>)))
      | Close c reason \<Rightarrow>
          (case connections S c of
             None \<Rightarrow> Inr S
           | Some p \<Rightarrow>
               (case connectionLost (heap S) p reason of
                  (p', w) \<Rightarrow> Inr (S\<lparr>heap := w, connections := (connections S)(c := None)\<rparr>))))"


text \<open>
  References are handed out in increasing order: an object of the heap has a reference
  below the next unused one.
\<close>

definition framers_allocated :: "('ctx, 'fs) world \<Rightarrow> bool" where
  "framers_allocated w \<longleftrightarrow> (\<forall>r. framers w r \<noteq> None \<longrightarrow> r < next_ref w)"

definition stores_allocated :: "('ctx, 'fs) world \<Rightarrow> bool" where
  "stores_allocated w \<longleftrightarrow> (\<forall>r. stores w r \<noteq> None \<longrightarrow> r < next_ref w)"



subsection \<open>An instance of the collaborators\<close>

text \<open>
  A small server to run the definitions on: a unit's store is its list of holding
  registers, function 3 reads \<open>count\<close> registers from \<open>address\<close> and anything else is
  refused by an exception, a read beyond the registers is answered with the code
  \<open>IllegalAddress\<close>, every exception has a text, a frame is five characters (transaction, unit, function, address, count),
  and a framer keeps the characters of an incomplete frame.
\<close>

definition demo_execute :: "request \<Rightarrow> int list \<Rightarrow> (raised + response) \<times> int list" where
  "demo_execute request registers =
     (case payload request of
        [address, count] \<Rightarrow>
          if function_code request \<noteq> 3
          then (Inl (Exc (ModbusException ''function not implemented'')), registers)
          else if 0 \<le> address \<and> 0 \<le> count \<and> address + count \<le> int (length registers)
          then (Inr \<lparr>transaction_id = 0, unit_id = 0,
                     body = Result 3 (take (nat count) (drop (nat address) registers))\<rparr>,
                registers)
          else (Inr \<lparr>transaction_id = 0, unit_id = 0,
                     body = ExceptionResponse 3 IllegalAddress\<rparr>,
                registers)
      | _ \<Rightarrow> (Inl (Exc (ModbusException ''malformed request'')), registers))"

fun demo_str :: "Exception \<Rightarrow> string" where
  "demo_str (NoSuchSlave uid) = ''no such slave''"
| "demo_str (AttributeError name) = name"
| "demo_str (KeyError key) = key"
| "demo_str (ReferenceError r) = ''no such object''"
| "demo_str (UnicodeError text) = text"
| "demo_str (ModbusException text) = text"

definition demo_doException :: "request \<Rightarrow> ModbusExceptions \<Rightarrow> response" where
  "demo_doException request code =
     \<lparr>transaction_id = 0, unit_id = 0, body = ExceptionResponse (function_code request) code\<rparr>"

fun demo_frames :: "bytes \<Rightarrow> request list \<times> bytes" where
  "demo_frames (t # u # f # a # n # rest) =
     (case demo_frames rest of
        (requests, buffer) \<Rightarrow>
          (\<lparr>transaction_id = of_char t, unit_id = of_char u, function_code = of_char f,
            payload = [of_char a, of_char n]\<rparr> # requests, buffer))"
| "demo_frames buffer = ([], buffer)"

fun exception_code :: "ModbusExceptions \<Rightarrow> int" where
  "exception_code IllegalFunction = 1"
| "exception_code IllegalAddress = 2"
| "exception_code IllegalValue = 3"
| "exception_code SlaveFailure = 4"
| "exception_code Acknowledge = 5"
| "exception_code SlaveBusy = 6"
| "exception_code MemoryParityError = 8"
| "exception_code GatewayPathUnavailable = 10"
| "exception_code GatewayNoResponse = 11"

definition demo_buildPacket :: "framer_class \<Rightarrow> response \<Rightarrow> bytes" where
  "demo_buildPacket cls message =
     map char_of
       ([transaction_id message, unit_id message] @
        (case body message of
           Result f values \<Rightarrow> f # values
         | ExceptionResponse f code \<Rightarrow> [f + 128, exception_code code]))"

definition demo :: "(int list, bytes, (nat \<times> string) list) collaborators" where
  "demo =
     \<lparr>request_execute = demo_execute,
      request_doException = demo_doException,
      exception_str = (\<lambda>ex. Inr (demo_str ex)),
      framer_init = (\<lambda>cls d. []),
      framer_process = (\<lambda>cls buffer data. demo_frames (buffer @ data)),
      framer_buildPacket = demo_buildPacket,
      context_truth = (\<lambda>st. st \<noteq> []),
      new_ModbusControlBlock = \<lparr>Identity = []\<rparr>,
      update_Identity = (\<lambda>old new. new @ old),
      Defaults_Baudrate = 19200\<rparr>"

definition demo_factory :: "(nat \<times> string) list ModbusServerFactory" where
  "demo_factory =
     \<lparr>decoder = 1, framer = ModbusSocketFramer, store = 0, control = \<lparr>Identity = []\<rparr>\<rparr>"

definition demo_world :: "(int list, bytes) world" where
  "demo_world =
     \<lparr>stores = [0 \<mapsto> [(1, [10, 20])]],
      framers = [2 \<mapsto> \<lparr>fr_class = ModbusSocketFramer, fr_decoder = 1, fr_state = []\<rparr>],
      next_ref = 3,
      log = []\<rparr>"

definition demo_protocol :: "(nat \<times> string) list ModbusProtocol" where
  "demo_protocol = \<lparr>factory = demo_factory, framer = Some 2, transport = []\<rparr>"

definition read_registers :: "int \<Rightarrow> int \<Rightarrow> request" where
  "read_registers t u =
     \<lparr>transaction_id = t, unit_id = u, function_code = 3, payload = [0, 2]\<rparr>"

definition read_too_many :: request where
  "read_too_many = \<lparr>transaction_id = 7, unit_id = 1, function_code = 3, payload = [0, 5]\<rparr>"

definition write_register :: request where
  "write_register = \<lparr>transaction_id = 8, unit_id = 1, function_code = 6, payload = [0, 99]\<rparr>"

text \<open>
  Three variations of it: a datastore whose execution is interrupted from the keyboard,
  one whose execution ends the interpreter, and exceptions whose text cannot be encoded.
\<close>

definition interrupted :: "(int list, bytes, (nat \<times> string) list) collaborators" where
  "interrupted = demo\<lparr>request_execute := (\<lambda>request registers. (Inl KeyboardInterrupt, registers))\<rparr>"

definition exiting :: "(int list, bytes, (nat \<times> string) list) collaborators" where
  "exiting = demo\<lparr>request_execute := (\<lambda>request registers. (Inl SystemExit, registers))\<rparr>"

definition unprintable :: "(int list, bytes, (nat \<times> string) list) collaborators" where
  "unprintable = demo\<lparr>exception_str := (\<lambda>ex. Inl (Exc (UnicodeError ''ordinal not in range'')))\<rparr>"


definition idle_world :: "(int list, bytes) world" where
  "idle_world = \<lparr>stores = [0 \<mapsto> [(1, [10, 20])]], framers = Map.empty, next_ref = 2, log = []\<rparr>"

definition partial_world :: "(int list, bytes) world" where
  "partial_world =
     \<lparr>stores = [0 \<mapsto> [(1, [10, 20])]],
      framers = [2 \<mapsto> \<lparr>fr_class = ModbusSocketFramer, fr_decoder = 1,
                         fr_state = [CHR 0x05, CHR 0x01, CHR 0x03]\<rparr>],
      next_ref = 3,
      log = []\<rparr>"


definition one_connection :: "(int list, bytes, (nat \<times> string) list) server" where
  "one_connection = \<lparr>heap = partial_world, connections = [0 \<mapsto> demo_protocol]\<rparr>"

definition serial_kwargs :: "(string \<times> string) list" where
  "serial_kwargs = [(''device'', ''/dev/ttyS0''), (''baudrate'', ''9600'')]"

definition falsy_world :: "(int list, bytes) world" where
  "falsy_world = \<lparr>stores = [0 \<mapsto> []], framers = Map.empty, next_ref = 1, log = []\<rparr>"

section \<open>Properties\<close>

subsection \<open>Correlation of a response with its request\<close>

lemma execute_response_ids:
  assumes "execute_response C w self request = Inr (response, w')"
  shows "transaction_id response = transaction_id request \<and>
         unit_id response = unit_id request"
  using assms by (auto simp add: execute_response_def split: sum.splits)

lemma execute_is_send:
  assumes "execute_response C w self request = Inr (response, w')"
  shows "execute C w self request = send C w' self response"
  using assms by (simp add: execute_def)

lemma execute_no_response:
  assumes "execute_response C w self request = Inl ex"
  shows "execute C w self request = Inl ex"
  using assms by (simp add: execute_def)

lemma demo_simps:
  "request_execute demo = demo_execute"
  "request_doException demo = demo_doException"
  "exception_str demo = (\<lambda>ex. Inr (demo_str ex))"
  "framer_buildPacket demo = demo_buildPacket"
  "framer_process demo = (\<lambda>cls buffer data. demo_frames (buffer @ data))"
  by (simp_all add: demo_def)

lemma demo_execute_response_read:
  "execute_response demo demo_world demo_protocol (read_registers 5 1) =
     Inr (\<lparr>transaction_id = 5, unit_id = 1, body = Result 3 [10, 20]\<rparr>, demo_world)"
  by (simp add: execute_response_def try_lookup_and_execute_def lookup_and_execute_def
      ModbusServerContext_getitem_def demo_simps demo_execute_def demo_world_def
      demo_protocol_def demo_factory_def read_registers_def)

lemma demo_execute_response_absent:
  "execute_response demo demo_world demo_protocol (read_registers 5 2) =
     Inr (\<lparr>transaction_id = 5, unit_id = 2, body = ExceptionResponse 3 SlaveFailure\<rparr>,
          demo_world\<lparr>log := [DatastoreUnable ''no such slave'']\<rparr>)"
  by (simp add: execute_response_def try_lookup_and_execute_def lookup_and_execute_def
      ModbusServerContext_getitem_def demo_simps demo_doException_def demo_world_def
      demo_protocol_def demo_factory_def read_registers_def)

text \<open>
  C1. Whatever the request, the heap and the collaborators: when \<open>execute\<close> reaches its
  call of \<open>send\<close>, the response it hands over has the \<open>transaction_id\<close> and \<open>unit_id\<close> of
  the request, on the path where the execution returned and on the path where the
  handler made the response, the two assignments coming after the response is made and
  before \<open>send\<close>; and when something is raised before there is a response, \<open>execute\<close>
  raises it and \<open>send\<close> is not called.
\<close>

theorem execute_sends_response_with_request_ids:
  "(\<forall>response w'. execute_response C w self request = Inr (response, w') \<longrightarrow>
      execute C w self request = send C w' self response \<and>
      transaction_id response = transaction_id request \<and>
      unit_id response = unit_id request) \<and>
   (\<forall>ex. execute_response C w self request = Inl ex \<longrightarrow>
      execute C w self request = Inl ex)"
  using execute_response_ids [of C w self request] execute_is_send [of C w self request]
    execute_no_response [of C w self request]
  by blast

theorem execute_sends_response_with_request_ids_witness:
  "execute demo demo_world demo_protocol (read_registers 5 1) =
     send demo demo_world demo_protocol
       \<lparr>transaction_id = 5, unit_id = 1, body = Result 3 [10, 20]\<rparr> \<and>
   transaction_id \<lparr>transaction_id = 5, unit_id = 1, body = Result 3 [10, 20]\<rparr> =
     transaction_id (read_registers 5 1) \<and>
   execute demo demo_world demo_protocol (read_registers 5 2) =
     send demo (demo_world\<lparr>log := [DatastoreUnable ''no such slave'']\<rparr>) demo_protocol
       \<lparr>transaction_id = 5, unit_id = 2, body = ExceptionResponse 3 SlaveFailure\<rparr> \<and>
   unit_id \<lparr>transaction_id = 5, unit_id = 2, body = ExceptionResponse 3 SlaveFailure\<rparr> =
     unit_id (read_registers 5 2)"
  using execute_sends_response_with_request_ids
      [of demo demo_world demo_protocol "read_registers 5 1"]
    execute_sends_response_with_request_ids
      [of demo demo_world demo_protocol "read_registers 5 2"]
    demo_execute_response_read demo_execute_response_absent
  by (simp add: read_registers_def)

subsection \<open>Failures of the datastore\<close>

lemma lookup_and_execute_framers:
  "framers (snd (lookup_and_execute C w self request)) = framers w \<and>
   next_ref (snd (lookup_and_execute C w self request)) = next_ref w"
  by (simp add: lookup_and_execute_def Let_def case_prod_beta split: option.splits sum.splits)

lemma execute_response_framers:
  assumes "execute_response C w self request = Inr (response, w')"
  shows "framers w' = framers w \<and> next_ref w' = next_ref w"
  using assms lookup_and_execute_framers [of C w self request]
  by (cases "lookup_and_execute C w self request")
     (auto simp add: execute_response_def try_lookup_and_execute_def
        split: sum.splits raised.splits)

lemma try_lookup_and_execute_caught:
  assumes "fst (lookup_and_execute C w self request) = Inl (Exc ex)"
      and "exception_str C ex = Inr text"
  shows "try_lookup_and_execute C w self request =
           Inr (request_doException C request SlaveFailure,
                (snd (lookup_and_execute C w self request))
                  \<lparr>log := log (snd (lookup_and_execute C w self request)) @
                           [DatastoreUnable text]\<rparr>)"
  using assms
  by (cases "lookup_and_execute C w self request") (simp add: try_lookup_and_execute_def)

lemma execute_response_caught:
  assumes "fst (lookup_and_execute C w self request) = Inl (Exc ex)"
      and "exception_str C ex = Inr text"
  shows "execute_response C w self request =
           Inr ((request_doException C request SlaveFailure)
                  \<lparr>transaction_id := transaction_id request, unit_id := unit_id request\<rparr>,
                (snd (lookup_and_execute C w self request))
                  \<lparr>log := log (snd (lookup_and_execute C w self request)) @
                           [DatastoreUnable text]\<rparr>)"
  using try_lookup_and_execute_caught [OF assms] by (simp add: execute_response_def)

lemma execute_response_returned:
  assumes "fst (lookup_and_execute C w self request) = Inr response"
  shows "execute_response C w self request =
           Inr (response\<lparr>transaction_id := transaction_id request, unit_id := unit_id request\<rparr>,
                snd (lookup_and_execute C w self request))"
  using assms
  by (cases "lookup_and_execute C w self request")
     (simp add: execute_response_def try_lookup_and_execute_def)

lemma execute_response_escapes:
  assumes "fst (lookup_and_execute C w self request) = Inl ex"
      and "\<not> isinstance_Exception ex"
  shows "execute_response C w self request = Inl ex"
  using assms
  by (cases "lookup_and_execute C w self request"; cases ex)
     (simp_all add: execute_response_def try_lookup_and_execute_def)

lemma execute_response_unformatted:
  assumes "fst (lookup_and_execute C w self request) = Inl (Exc ex)"
      and "exception_str C ex = Inl ex'"
  shows "execute_response C w self request = Inl ex'"
  using assms
  by (cases "lookup_and_execute C w self request")
     (simp add: execute_response_def try_lookup_and_execute_def)

lemma lookup_and_execute_absent:
  assumes "stores w (store (factory self)) = Some st"
      and "map_of st (unit_id request) = None"
  shows "lookup_and_execute C w self request = (Inl (Exc (NoSuchSlave (unit_id request))), w)"
  using assms by (simp add: lookup_and_execute_def ModbusServerContext_getitem_def)

lemma lookup_and_execute_present:
  assumes "stores w (store (factory self)) = Some st"
      and "map_of st (unit_id request) = Some context"
  shows "fst (lookup_and_execute C w self request) = fst (request_execute C request context)"
  using assms
  by (simp add: lookup_and_execute_def ModbusServerContext_getitem_def case_prod_beta)

lemma lookup_and_execute_raised:
  assumes "fst (lookup_and_execute C w self request) = Inl ex"
  shows "(\<exists>r. ex = Exc (ReferenceError r)) \<or> (\<exists>uid. ex = Exc (NoSuchSlave uid)) \<or>
         (\<exists>context. fst (request_execute C request context) = Inl ex)"
  using assms
  by (auto simp add: lookup_and_execute_def ModbusServerContext_getitem_def Let_def
      case_prod_beta split: option.splits sum.splits)

lemma execute_response_returns:
  assumes "contained C"
  shows "\<exists>response w'. execute_response C w self request = Inr (response, w')"
proof (cases "fst (lookup_and_execute C w self request)")
  case (Inl ex)
  have "isinstance_Exception ex"
    using lookup_and_execute_raised [OF Inl] assms unfolding contained_def by auto
  then obtain e where e: "ex = Exc e" by (cases ex) simp_all
  obtain msg where "exception_str C e = Inr msg"
    using assms unfolding contained_def by blast
  from execute_response_caught [OF Inl [unfolded e] this] show ?thesis by blast
next
  case (Inr response)
  from execute_response_returned [OF this] show ?thesis by blast
qed




lemma execute_connected:
  assumes "ModbusProtocol.framer self = Some r" and "framers w r = Some fr"
      and "execute_response C w self request = Inr (response, w1)"
  shows "execute C w self request =
           Inr (self\<lparr>transport := transport self @
                       [framer_buildPacket C (fr_class fr) response]\<rparr>,
                w1\<lparr>log := log w1 @ [SendLogged (framer_buildPacket C (fr_class fr) response)]\<rparr>)"
  using assms execute_response_framers [OF assms(3)]
  by (simp add: execute_def send_def Let_def)






lemma contained_demo: "contained demo"
  unfolding contained_def
proof (intro conjI allI impI)
  fix request :: request and registers :: "int list" and ex
  assume "fst (request_execute demo request registers) = Inl ex"
  then show "isinstance_Exception ex"
    by (auto simp add: demo_simps demo_execute_def split: list.splits if_splits)
next
  fix ex
  show "\<exists>msg. exception_str demo ex = Inr msg" by (simp add: demo_simps)
qed

lemma demo_heap:
  "stores demo_world (store (factory demo_protocol)) = Some [(1, [10, 20])]"
  "ModbusProtocol.framer demo_protocol = Some 2"
  "framers demo_world 2 = Some \<lparr>fr_class = ModbusSocketFramer, fr_decoder = 1, fr_state = []\<rparr>"
  by (simp_all add: demo_world_def demo_protocol_def demo_factory_def)

lemma variation_simps:
  "request_execute interrupted = (\<lambda>request registers. (Inl KeyboardInterrupt, registers))"
  "request_execute exiting = (\<lambda>request registers. (Inl SystemExit, registers))"
  "request_execute unprintable = demo_execute"
  "exception_str unprintable = (\<lambda>ex. Inl (Exc (UnicodeError ''ordinal not in range'')))"
  by (simp_all add: interrupted_def exiting_def unprintable_def demo_def)

text \<open>
  Two failures of an execution that do not end in a \<open>SlaveFailure\<close> response. An
  execution interrupted from the keyboard raises what \<open>except Exception\<close> does not
  catch: \<open>execute\<close> makes no response and raises it. A read beyond the registers, which
  the request answers itself with an error response, is sent with the code of that
  response, \<open>IllegalAddress\<close>.
\<close>

theorem execute_failure_without_SlaveFailure_counterexample:
  "execute_response interrupted demo_world demo_protocol (read_registers 5 1) =
     Inl KeyboardInterrupt \<and>
   execute interrupted demo_world demo_protocol (read_registers 5 1) = Inl KeyboardInterrupt \<and>
   execute_response demo demo_world demo_protocol read_too_many =
     Inr (\<lparr>transaction_id = 7, unit_id = 1, body = ExceptionResponse 3 IllegalAddress\<rparr>,
          demo_world)"
  by (simp add: execute_def execute_response_def try_lookup_and_execute_def
      lookup_and_execute_def ModbusServerContext_getitem_def variation_simps demo_simps
      demo_execute_def demo_world_def demo_protocol_def demo_factory_def read_registers_def
      read_too_many_def)

text \<open>
  C2, as the module has it. When the unit of the request has no entry in the factory's
  datastore context, or the execution of the request raises an instance of \<open>Exception\<close>,
  and the handler gets the text of the exception for its log line, the response of
  \<open>execute\<close> is the one \<open>doException\<close> builds with the code \<open>SlaveFailure\<close>, with the
  \<open>transaction_id\<close> and \<open>unit_id\<close> of the request, and it is handed to \<open>send\<close>; the
  exception does not occur in the response, so every such cause gives the same code.
  What the execution raises that is not an instance of \<open>Exception\<close> leaves \<open>execute\<close>
  without a response, and a response the execution returns is sent as it is, with its
  own code, under the identifiers of the request.
\<close>

theorem execute_failure_gives_SlaveFailure:
  assumes "stores w (store (factory self)) = Some st"
  shows "(\<forall>ex msg.
            (map_of st (unit_id request) = None \<and> ex = NoSuchSlave (unit_id request)) \<or>
            (\<exists>context. map_of st (unit_id request) = Some context \<and>
               fst (request_execute C request context) = Inl (Exc ex)) \<longrightarrow>
            exception_str C ex = Inr msg \<longrightarrow>
            (\<exists>w'. execute_response C w self request =
                     Inr ((request_doException C request SlaveFailure)
                            \<lparr>transaction_id := transaction_id request,
                             unit_id := unit_id request\<rparr>, w') \<and>
                   execute C w self request =
                     send C w' self
                       ((request_doException C request SlaveFailure)
                          \<lparr>transaction_id := transaction_id request,
                           unit_id := unit_id request\<rparr>))) \<and>
         (\<forall>context ex.
            map_of st (unit_id request) = Some context \<longrightarrow>
            fst (request_execute C request context) = Inl ex \<longrightarrow>
            \<not> isinstance_Exception ex \<longrightarrow>
            execute_response C w self request = Inl ex \<and> execute C w self request = Inl ex) \<and>
         (\<forall>context response.
            map_of st (unit_id request) = Some context \<longrightarrow>
            fst (request_execute C request context) = Inr response \<longrightarrow>
            (\<exists>w'. execute_response C w self request =
                     Inr (response\<lparr>transaction_id := transaction_id request,
                                   unit_id := unit_id request\<rparr>, w')))"
proof (intro conjI allI impI)
  fix ex msg
  assume a: "(map_of st (unit_id request) = None \<and> ex = NoSuchSlave (unit_id request)) \<or>
             (\<exists>context. map_of st (unit_id request) = Some context \<and>
                fst (request_execute C request context) = Inl (Exc ex))"
    and m: "exception_str C ex = Inr msg"
  have "fst (lookup_and_execute C w self request) = Inl (Exc ex)"
    using a lookup_and_execute_absent [OF assms, of request C]
      lookup_and_execute_present [OF assms, of request _ C]
    by auto
  from execute_response_caught [OF this m]
  show "\<exists>w'. execute_response C w self request =
                Inr ((request_doException C request SlaveFailure)
                       \<lparr>transaction_id := transaction_id request,
                        unit_id := unit_id request\<rparr>, w') \<and>
              execute C w self request =
                send C w' self
                  ((request_doException C request SlaveFailure)
                     \<lparr>transaction_id := transaction_id request,
                      unit_id := unit_id request\<rparr>)"
    using execute_is_send by blast
next
  fix registers ex
  assume "map_of st (unit_id request) = Some registers"
    and "fst (request_execute C request registers) = Inl ex"
    and n: "\<not> isinstance_Exception ex"
  then have "fst (lookup_and_execute C w self request) = Inl ex"
    using lookup_and_execute_present [OF assms, of request registers C] by simp
  from execute_response_escapes [OF this n]
  show "execute_response C w self request = Inl ex" .
  then show "execute C w self request = Inl ex" by (rule execute_no_response)
next
  fix registers response
  assume "map_of st (unit_id request) = Some registers"
    and "fst (request_execute C request registers) = Inr response"
  then have "fst (lookup_and_execute C w self request) = Inr response"
    using lookup_and_execute_present [OF assms, of request registers C] by simp
  from execute_response_returned [OF this]
  show "\<exists>w'. execute_response C w self request =
                Inr (response\<lparr>transaction_id := transaction_id request,
                              unit_id := unit_id request\<rparr>, w')"
    by blast
qed

theorem execute_failure_gives_SlaveFailure_witness:
  "(\<exists>w'. execute_response demo demo_world demo_protocol (read_registers 5 2) =
      Inr (\<lparr>transaction_id = 5, unit_id = 2, body = ExceptionResponse 3 SlaveFailure\<rparr>, w')) \<and>
   (\<exists>w'. execute_response demo demo_world demo_protocol write_register =
      Inr (\<lparr>transaction_id = 8, unit_id = 1, body = ExceptionResponse 6 SlaveFailure\<rparr>, w')) \<and>
   (\<exists>w'. execute_response demo demo_world demo_protocol read_too_many =
      Inr (\<lparr>transaction_id = 7, unit_id = 1, body = ExceptionResponse 3 IllegalAddress\<rparr>, w'))"
proof -
  note t1 = execute_failure_gives_SlaveFailure [OF demo_heap(1), of "read_registers 5 2" demo]
  note t2 = execute_failure_gives_SlaveFailure [OF demo_heap(1), of write_register demo]
  note t3 = execute_failure_gives_SlaveFailure [OF demo_heap(1), of read_too_many demo]
  have a1: "map_of [(1, [10, 20::int])] (unit_id (read_registers 5 2)) = None \<and>
            NoSuchSlave 2 = NoSuchSlave (unit_id (read_registers 5 2))"
    by (simp add: read_registers_def)
  have m1: "exception_str demo (NoSuchSlave 2) = Inr ''no such slave''"
    by (simp add: demo_simps)
  have a2: "\<exists>context. map_of [(1, [10, 20::int])] (unit_id write_register) = Some context \<and>
              fst (request_execute demo write_register context) =
                Inl (Exc (ModbusException ''function not implemented''))"
    by (simp add: write_register_def demo_simps demo_execute_def)
  have m2: "exception_str demo (ModbusException ''function not implemented'') =
              Inr ''function not implemented''"
    by (simp add: demo_simps)
  have a3: "map_of [(1, [10, 20::int])] (unit_id read_too_many) = Some [10, 20]"
           "fst (request_execute demo read_too_many [10, 20]) =
              Inr \<lparr>transaction_id = 0, unit_id = 0, body = ExceptionResponse 3 IllegalAddress\<rparr>"
    by (simp_all add: read_too_many_def demo_simps demo_execute_def)
  have 1: "\<exists>w'. execute_response demo demo_world demo_protocol (read_registers 5 2) =
      Inr (\<lparr>transaction_id = 5, unit_id = 2, body = ExceptionResponse 3 SlaveFailure\<rparr>, w')"
    using t1 [THEN conjunct1, rule_format, OF disjI1, OF a1 m1]
    by (auto simp add: demo_simps demo_doException_def read_registers_def)
  have 2: "\<exists>w'. execute_response demo demo_world demo_protocol write_register =
      Inr (\<lparr>transaction_id = 8, unit_id = 1, body = ExceptionResponse 6 SlaveFailure\<rparr>, w')"
    using t2 [THEN conjunct1, rule_format, OF disjI2, OF a2 m2]
    by (auto simp add: demo_simps demo_doException_def write_register_def)
  have 3: "\<exists>w'. execute_response demo demo_world demo_protocol read_too_many =
      Inr (\<lparr>transaction_id = 7, unit_id = 1, body = ExceptionResponse 3 IllegalAddress\<rparr>, w')"
    using t3 [THEN conjunct2, THEN conjunct2, rule_format, OF a3]
    by (auto simp add: read_too_many_def)
  show ?thesis using 1 2 3 by blast
qed

text \<open>
  Two exceptions of the execution that leave \<open>execute\<close>. \<open>SystemExit\<close> is not an
  instance of \<open>Exception\<close>, so the handler is not entered. An exception whose text cannot
  be encoded is caught, and the handler's log line then raises \<open>UnicodeError\<close>. In both
  cases \<open>execute\<close> raises and sends nothing.
\<close>

theorem execute_lets_SystemExit_out_counterexample:
  "fst (lookup_and_execute exiting demo_world demo_protocol (read_registers 9 1)) =
     Inl SystemExit \<and>
   execute exiting demo_world demo_protocol (read_registers 9 1) = Inl SystemExit \<and>
   fst (lookup_and_execute unprintable demo_world demo_protocol write_register) =
     Inl (Exc (ModbusException ''function not implemented'')) \<and>
   execute unprintable demo_world demo_protocol write_register =
     Inl (Exc (UnicodeError ''ordinal not in range''))"
  by (simp add: execute_def execute_response_def try_lookup_and_execute_def
      lookup_and_execute_def ModbusServerContext_getitem_def variation_simps
      demo_execute_def demo_world_def demo_protocol_def demo_factory_def read_registers_def
      write_register_def)

text \<open>
  C3, as the module has it. On a connected protocol, when the lookup in the datastore
  or the execution of the request raises an instance of \<open>Exception\<close> whose text the
  handler gets, \<open>execute\<close> catches it and writes to the transport the packet of the
  \<open>SlaveFailure\<close> response that carries the identifiers of the request. What is raised
  there that is not an instance of \<open>Exception\<close> leaves \<open>execute\<close>. With collaborators
  that raise nothing else and give every exception a text, \<open>execute\<close> returns for every
  request.
\<close>

theorem execute_catches_instances_of_Exception:
  assumes "ModbusProtocol.framer self = Some r" and "framers w r = Some fr"
  shows "(\<forall>ex msg.
            fst (lookup_and_execute C w self request) = Inl (Exc ex) \<longrightarrow>
            exception_str C ex = Inr msg \<longrightarrow>
            (\<exists>w'. execute C w self request =
               Inr (self\<lparr>transport := transport self @
                      [framer_buildPacket C (fr_class fr)
                         ((request_doException C request SlaveFailure)
                            \<lparr>transaction_id := transaction_id request,
                             unit_id := unit_id request\<rparr>)]\<rparr>, w'))) \<and>
         (\<forall>ex. fst (lookup_and_execute C w self request) = Inl ex \<longrightarrow>
            \<not> isinstance_Exception ex \<longrightarrow>
            execute C w self request = Inl ex) \<and>
         (contained C \<longrightarrow> (\<exists>self' w'. execute C w self request = Inr (self', w')))"
proof (intro conjI allI impI)
  fix ex msg
  assume "fst (lookup_and_execute C w self request) = Inl (Exc ex)"
    and "exception_str C ex = Inr msg"
  from execute_connected [OF assms execute_response_caught [OF this]]
  show "\<exists>w'. execute C w self request =
          Inr (self\<lparr>transport := transport self @
                 [framer_buildPacket C (fr_class fr)
                    ((request_doException C request SlaveFailure)
                       \<lparr>transaction_id := transaction_id request,
                        unit_id := unit_id request\<rparr>)]\<rparr>, w')"
    by blast
next
  fix ex
  assume "fst (lookup_and_execute C w self request) = Inl ex" and "\<not> isinstance_Exception ex"
  from execute_no_response [OF execute_response_escapes [OF this]]
  show "execute C w self request = Inl ex" .
next
  assume "contained C"
  from execute_response_returns [OF this, of w self request] obtain response w1 where
    "execute_response C w self request = Inr (response, w1)" by blast
  from execute_connected [OF assms this]
  show "\<exists>self' w'. execute C w self request = Inr (self', w')" by blast
qed

theorem execute_catches_instances_of_Exception_witness:
  "fst (lookup_and_execute demo demo_world demo_protocol write_register) =
     Inl (Exc (ModbusException ''function not implemented'')) \<and>
   (\<exists>w'. execute demo demo_world demo_protocol write_register =
      Inr (demo_protocol\<lparr>transport := [map char_of [8::int, 1, 134, 4]]\<rparr>, w')) \<and>
   (\<exists>self' w'. execute demo demo_world demo_protocol (read_registers 5 1) = Inr (self', w'))"
proof -
  note t = execute_catches_instances_of_Exception [OF demo_heap(2,3), of demo]
  have l: "fst (lookup_and_execute demo demo_world demo_protocol write_register) =
             Inl (Exc (ModbusException ''function not implemented''))"
    by (simp add: lookup_and_execute_def ModbusServerContext_getitem_def demo_simps
        demo_execute_def demo_world_def demo_protocol_def demo_factory_def write_register_def)
  have m: "exception_str demo (ModbusException ''function not implemented'') =
             Inr ''function not implemented''"
    by (simp add: demo_simps)
  have 1: "\<exists>w'. execute demo demo_world demo_protocol write_register =
      Inr (demo_protocol\<lparr>transport := [map char_of [8::int, 1, 134, 4]]\<rparr>, w')"
    using t [of write_register, THEN conjunct1, rule_format, OF l m]
    by (simp add: demo_simps demo_doException_def demo_buildPacket_def write_register_def
        demo_protocol_def)
  have 2: "\<exists>self' w'. execute demo demo_world demo_protocol (read_registers 5 1) = Inr (self', w')"
    using t [of "read_registers 5 1", THEN conjunct2, THEN conjunct2] contained_demo by blast
  show ?thesis using l 1 2 by blast
qed

subsection \<open>Pipelined requests\<close>



subsection \<open>Framers and connections\<close>

lemma connectionMade_effect:
  "connectionMade C w self =
     (self\<lparr>framer := Some (next_ref w)\<rparr>,
      w\<lparr>log := log w @ [ClientConnected],
        framers := (framers w)(next_ref w \<mapsto>
          \<lparr>fr_class = ModbusServerFactory.framer (factory self),
           fr_decoder = decoder (factory self),
           fr_state = framer_init C (ModbusServerFactory.framer (factory self))
                        (decoder (factory self))\<rparr>),
        next_ref := Suc (next_ref w)\<rparr>)"
  by (simp add: connectionMade_def Let_def)










lemma connectionMade_fresh:
  assumes "framers_allocated w"
  shows "framers w (next_ref w) = None"
  using assms unfolding framers_allocated_def by (cases "framers w (next_ref w)") auto








text \<open>
  After \<open>connectionLost\<close> on a protocol whose framer holds three characters of a frame,
  the protocol still has that framer, the framer still holds the three characters, and a
  call of \<open>dataReceived\<close> with the two missing characters completes the frame and
  answers the request.
\<close>

theorem connectionLost_keeps_framer_counterexample:
  "ModbusProtocol.framer (fst (connectionLost partial_world demo_protocol ''connection lost'')) =
     Some 2 \<and>
   framers (snd (connectionLost partial_world demo_protocol ''connection lost'')) 2 =
     Some \<lparr>fr_class = ModbusSocketFramer, fr_decoder = 1,
           fr_state = [CHR 0x05, CHR 0x01, CHR 0x03]\<rparr> \<and>
   (\<exists>w'. dataReceived demo (snd (connectionLost partial_world demo_protocol ''connection lost''))
            (fst (connectionLost partial_world demo_protocol ''connection lost''))
            [CHR 0x00, CHR 0x02] =
          Inr (demo_protocol\<lparr>transport := [map char_of [5::int, 1, 3, 10, 20]]\<rparr>, w'))"
  by (simp add: connectionLost_def partial_world_def demo_protocol_def demo_factory_def
      dataReceived_def processIncomingPacket_def execute_def execute_response_def
      try_lookup_and_execute_def lookup_and_execute_def ModbusServerContext_getitem_def
      send_def demo_simps
      demo_execute_def demo_buildPacket_def Let_def)

text \<open>
  C6, as the module has it. \<open>connectionLost\<close> only logs the disconnect: the protocol
  keeps its framer and the framer keeps what it has buffered. A later connection starts
  from \<open>connectionMade\<close>, whose framer is a new object in the initial state of its class,
  so nothing buffered reaches it; and the listener, which drops the protocol of a closed
  connection, hands it no further bytes.
\<close>

theorem connectionLost_only_logs:
  "connectionLost w self reason = (self, w\<lparr>log := log w @ [ClientDisconnected]\<rparr>) \<and>
   (case connectionMade C (snd (connectionLost w self reason)) later of
      (self', w') \<Rightarrow>
        ModbusProtocol.framer self' = Some (next_ref w) \<and>
        framers w' (next_ref w) =
          Some \<lparr>fr_class = ModbusServerFactory.framer (factory later),
                fr_decoder = decoder (factory later),
                fr_state = framer_init C (ModbusServerFactory.framer (factory later))
                             (decoder (factory later))\<rparr> \<and>
        (framers_allocated w \<longrightarrow> framers w (next_ref w) = None)) \<and>
   (connections S c = Some p \<longrightarrow>
      (\<exists>S'. deliver C f S (Close c reason) = Inr S' \<and> connections S' c = None \<and>
         deliver C f S' (Receive c data) = Inr S'))"
  using connectionMade_fresh [of w]
  by (simp add: connectionLost_def connectionMade_effect deliver_def)

theorem connectionLost_only_logs_witness:
  "connectionLost partial_world demo_protocol ''connection lost'' =
     (demo_protocol, partial_world\<lparr>log := [ClientDisconnected]\<rparr>) \<and>
   ModbusProtocol.framer
     (fst (connectionMade demo (snd (connectionLost partial_world demo_protocol ''connection lost''))
        demo_protocol)) = Some 3 \<and>
   framers
     (snd (connectionMade demo (snd (connectionLost partial_world demo_protocol ''connection lost''))
        demo_protocol)) 3 =
     Some \<lparr>fr_class = ModbusSocketFramer, fr_decoder = 1, fr_state = []\<rparr> \<and>
   framers partial_world 3 = None \<and>
   (\<exists>S'. deliver demo demo_factory one_connection (Close 0 ''connection lost'') = Inr S' \<and>
      connections S' 0 = None \<and>
      deliver demo demo_factory S' (Receive 0 [CHR 0x00, CHR 0x02]) = Inr S')"
proof -
  have a: "framers_allocated partial_world"
    by (simp add: framers_allocated_def partial_world_def)
  have c: "connections one_connection 0 = Some demo_protocol"
    by (simp add: one_connection_def)
  note t = connectionLost_only_logs [where w = partial_world and self = demo_protocol
      and reason = "''connection lost''" and C = demo and later = demo_protocol
      and S = one_connection and c = 0 and p = demo_protocol and f = demo_factory
      and data = "[CHR 0x00, CHR 0x02]"]
  have n: "next_ref partial_world = 3" "log partial_world = []"
    by (simp_all add: partial_world_def)
  have i: "ModbusServerFactory.framer (factory demo_protocol) = ModbusSocketFramer"
          "decoder (factory demo_protocol) = 1"
          "framer_init demo ModbusSocketFramer 1 = []"
    by (simp_all add: demo_protocol_def demo_factory_def demo_def)
  have 1: "connectionLost partial_world demo_protocol ''connection lost'' =
             (demo_protocol, partial_world\<lparr>log := [ClientDisconnected]\<rparr>)"
    using t [THEN conjunct1] n by simp
  have 2: "ModbusProtocol.framer
             (fst (connectionMade demo
                (snd (connectionLost partial_world demo_protocol ''connection lost''))
                demo_protocol)) = Some 3 \<and>
           framers
             (snd (connectionMade demo
                (snd (connectionLost partial_world demo_protocol ''connection lost''))
                demo_protocol)) 3 =
             Some \<lparr>fr_class = ModbusSocketFramer, fr_decoder = 1, fr_state = []\<rparr> \<and>
           framers partial_world 3 = None"
    using t [THEN conjunct2, THEN conjunct1] a n i by (simp only: case_prod_beta)
  have 3: "\<exists>S'. deliver demo demo_factory one_connection (Close 0 ''connection lost'') = Inr S' \<and>
             connections S' 0 = None \<and>
             deliver demo demo_factory S' (Receive 0 [CHR 0x00, CHR 0x02]) = Inr S'"
    using t [THEN conjunct2, THEN conjunct2] c by blast
  show ?thesis using 1 2 3 by blast
qed

subsection \<open>The factory and the serial server\<close>

lemma init_fresh:
  assumes "store_arg = None \<or>
           (\<exists>r st. store_arg = Some r \<and> stores w r = Some st \<and> \<not> context_truth C st)"
  shows "ModbusServerFactory_init C w store_arg framer_arg identity =
           Inr (\<lparr>decoder = next_ref w,
                 framer = (case framer_arg of None \<Rightarrow> ModbusSocketFramer | Some cls \<Rightarrow> cls),
                 store = Suc (next_ref w),
                 control =
                   (case identity of
                      ModbusDeviceIdentification i \<Rightarrow>
                        (new_ModbusControlBlock C)
                          \<lparr>Identity := update_Identity C (Identity (new_ModbusControlBlock C)) i\<rparr>
                    | _ \<Rightarrow> new_ModbusControlBlock C)\<rparr>,
                w\<lparr>next_ref := Suc (Suc (next_ref w)),
                  stores := (stores w)(Suc (next_ref w) \<mapsto> ModbusServerContext_new)\<rparr>)"
  using assms by (auto simp add: ModbusServerFactory_init_def Let_def)

lemma init_retained:
  assumes "stores w r = Some st" and "context_truth C st"
  shows "ModbusServerFactory_init C w (Some r) framer_arg identity =
           Inr (\<lparr>decoder = next_ref w,
                 framer = (case framer_arg of None \<Rightarrow> ModbusSocketFramer | Some cls \<Rightarrow> cls),
                 store = r,
                 control =
                   (case identity of
                      ModbusDeviceIdentification i \<Rightarrow>
                        (new_ModbusControlBlock C)
                          \<lparr>Identity := update_Identity C (Identity (new_ModbusControlBlock C)) i\<rparr>
                    | _ \<Rightarrow> new_ModbusControlBlock C)\<rparr>,
                w\<lparr>next_ref := Suc (next_ref w)\<rparr>)"
  using assms by (simp add: ModbusServerFactory_init_def Let_def)

lemma init_cases:
  assumes "ModbusServerFactory_init C w store_arg framer_arg identity = Inr (f, w')"
  shows "(store_arg = None \<or>
           (\<exists>r st. store_arg = Some r \<and> stores w r = Some st \<and> \<not> context_truth C st)) \<or>
         (\<exists>r st. store_arg = Some r \<and> stores w r = Some st \<and> context_truth C st)"
  using assms
  by (cases store_arg) (auto simp add: ModbusServerFactory_init_def Let_def split: option.splits)

lemma init_framer_control:
  assumes "ModbusServerFactory_init C w store_arg framer_arg identity = Inr (f, w')"
  shows "ModbusServerFactory.framer f =
           (case framer_arg of None \<Rightarrow> ModbusSocketFramer | Some cls \<Rightarrow> cls) \<and>
         control f =
           (case identity of
              ModbusDeviceIdentification i \<Rightarrow>
                (new_ModbusControlBlock C)
                  \<lparr>Identity := update_Identity C (Identity (new_ModbusControlBlock C)) i\<rparr>
            | _ \<Rightarrow> new_ModbusControlBlock C) \<and>
         decoder f = next_ref w"
  using init_cases [OF assms] assms
    init_fresh [of store_arg w C framer_arg identity]
    init_retained [of w _ _ C framer_arg identity]
  by auto

lemma stores_allocated_fresh:
  assumes "stores_allocated w"
  shows "stores w (Suc (next_ref w)) = None"
  using assms unfolding stores_allocated_def
  by (cases "stores w (Suc (next_ref w))") (auto dest: spec [of _ "Suc (next_ref w)"])

lemma lookup_and_execute_factory:
  assumes "factory self = factory self'"
  shows "lookup_and_execute C w self request = lookup_and_execute C w self' request"
  using assms by (simp add: lookup_and_execute_def)

text \<open>
  C7. The factory made without a framer has \<open>ModbusSocketFramer\<close>. The factory made with
  \<open>None\<close> for the store has a datastore context that is a new object and is empty. When
  the store given is an object that is true, the factory's store is that very object:
  its reference is the one given, no datastore context is added to the heap, and every
  protocol the factory builds reaches the same object, so that the lookup and execution
  of a request is the same through any of them.
\<close>

theorem factory_defaults_and_shared_store:
  "(\<forall>f w'. ModbusServerFactory_init C w store_arg None identity = Inr (f, w') \<longrightarrow>
      ModbusServerFactory.framer f = ModbusSocketFramer) \<and>
   (\<exists>f w'. ModbusServerFactory_init C w None framer_arg identity = Inr (f, w') \<and>
      store f = Suc (next_ref w) \<and>
      stores w' (store f) = Some [] \<and>
      (stores_allocated w \<longrightarrow> stores w (store f) = None)) \<and>
   (\<forall>r st. stores w r = Some st \<longrightarrow> context_truth C st \<longrightarrow>
      (\<exists>f w'. ModbusServerFactory_init C w (Some r) framer_arg identity = Inr (f, w') \<and>
         store f = r \<and> stores w' = stores w \<and>
         store (factory (buildProtocol f)) = r \<and>
         (\<forall>self request. factory self = f \<longrightarrow>
            lookup_and_execute C w' self request =
            lookup_and_execute C w' (buildProtocol f) request)))"
proof (intro conjI)
  show "\<forall>f w'. ModbusServerFactory_init C w store_arg None identity = Inr (f, w') \<longrightarrow>
          ModbusServerFactory.framer f = ModbusSocketFramer"
    using init_framer_control [of C w store_arg None identity] by auto
next
  show "\<exists>f w'. ModbusServerFactory_init C w None framer_arg identity = Inr (f, w') \<and>
          store f = Suc (next_ref w) \<and> stores w' (store f) = Some [] \<and>
          (stores_allocated w \<longrightarrow> stores w (store f) = None)"
    using init_fresh [of None w C framer_arg identity] stores_allocated_fresh [of w]
    by (simp add: ModbusServerContext_new_def)
next
  show "\<forall>r st. stores w r = Some st \<longrightarrow> context_truth C st \<longrightarrow>
          (\<exists>f w'. ModbusServerFactory_init C w (Some r) framer_arg identity = Inr (f, w') \<and>
             store f = r \<and> stores w' = stores w \<and>
             store (factory (buildProtocol f)) = r \<and>
             (\<forall>self request. factory self = f \<longrightarrow>
                lookup_and_execute C w' self request =
                lookup_and_execute C w' (buildProtocol f) request))"
  proof (intro allI impI)
    fix r st
    assume a: "stores w r = Some st" "context_truth C st"
    show "\<exists>f w'. ModbusServerFactory_init C w (Some r) framer_arg identity = Inr (f, w') \<and>
             store f = r \<and> stores w' = stores w \<and>
             store (factory (buildProtocol f)) = r \<and>
             (\<forall>self request. factory self = f \<longrightarrow>
                lookup_and_execute C w' self request =
                lookup_and_execute C w' (buildProtocol f) request)"
      using init_retained [OF a, of framer_arg identity]
      by (auto simp add: buildProtocol_def intro: lookup_and_execute_factory)
  qed
qed

theorem factory_defaults_and_shared_store_witness:
  "(\<exists>f w'. ModbusServerFactory_init demo idle_world (Some 0) None PyNone = Inr (f, w') \<and>
      ModbusServerFactory.framer f = ModbusSocketFramer \<and> store f = 0 \<and>
      stores w' = stores idle_world \<and> store (factory (buildProtocol f)) = 0) \<and>
   (\<exists>f w'. ModbusServerFactory_init demo idle_world None None PyNone = Inr (f, w') \<and>
      store f = 3 \<and> stores w' 3 = Some [] \<and> stores idle_world 3 = None)"
proof -
  note t = factory_defaults_and_shared_store [where C = demo and w = idle_world
      and store_arg = "Some 0" and identity = PyNone and framer_arg = None]
  have s: "stores idle_world 0 = Some [(1, [10, 20])]" "context_truth demo [(1, [10, 20])]"
          "stores_allocated idle_world" "next_ref idle_world = 2"
    by (simp_all add: idle_world_def demo_def stores_allocated_def)
  from t [THEN conjunct2, THEN conjunct2] s(1,2)
  obtain f w' where
    r: "ModbusServerFactory_init demo idle_world (Some 0) None PyNone = Inr (f, w')"
       "store f = 0" "stores w' = stores idle_world" "store (factory (buildProtocol f)) = 0"
    by blast
  from t [THEN conjunct1] r(1) have fr: "ModbusServerFactory.framer f = ModbusSocketFramer"
    by blast
  from t [THEN conjunct2, THEN conjunct1] s(3,4)
  have n: "\<exists>f w'. ModbusServerFactory_init demo idle_world None None PyNone = Inr (f, w') \<and>
      store f = 3 \<and> stores w' 3 = Some [] \<and> stores idle_world 3 = None"
    by auto
  show ?thesis using r fr n by blast
qed

text \<open>
  C8. The identity of the control block of a new factory is the default identity updated
  with the argument when the argument is an instance of \<open>ModbusDeviceIdentification\<close>,
  and the default identity, unchanged, for every other argument, \<open>None\<close> included.
\<close>

theorem identity_applied_iff_instance:
  assumes "ModbusServerFactory_init C w store_arg framer_arg identity = Inr (f, w')"
  shows "(isinstance_ModbusDeviceIdentification identity \<longrightarrow>
            (\<exists>i. identity = ModbusDeviceIdentification i \<and>
               control f =
                 (new_ModbusControlBlock C)
                   \<lparr>Identity := update_Identity C (Identity (new_ModbusControlBlock C)) i\<rparr>)) \<and>
         (\<not> isinstance_ModbusDeviceIdentification identity \<longrightarrow>
            control f = new_ModbusControlBlock C)"
  using init_framer_control [OF assms] by (cases identity) simp_all

theorem identity_applied_iff_instance_witness:
  "(\<exists>f w'. ModbusServerFactory_init demo idle_world (Some 0) None
              (ModbusDeviceIdentification [(0, ''vendor'')]) = Inr (f, w') \<and>
      Identity (control f) = [(0, ''vendor'')]) \<and>
   (\<exists>f w'. ModbusServerFactory_init demo idle_world (Some 0) None PyNone = Inr (f, w') \<and>
      Identity (control f) = []) \<and>
   (\<exists>f w'. ModbusServerFactory_init demo idle_world (Some 0) None (OtherObject ''vendor'') =
              Inr (f, w') \<and>
      Identity (control f) = [])"
proof -
  have s: "stores idle_world 0 = Some [(1, [10, 20])]" "context_truth demo [(1, [10, 20])]"
    by (simp_all add: idle_world_def demo_def)
  have d: "new_ModbusControlBlock demo = \<lparr>Identity = []\<rparr>"
          "update_Identity demo [] [(0, ''vendor'')] = [(0, ''vendor'')]"
    by (simp_all add: demo_def)
  obtain f1 w1 where 1: "ModbusServerFactory_init demo idle_world (Some 0) None
      (ModbusDeviceIdentification [(0, ''vendor'')]) = Inr (f1, w1)"
    using init_retained [OF s] by blast
  obtain f2 w2 where 2: "ModbusServerFactory_init demo idle_world (Some 0) None PyNone =
      Inr (f2, w2)"
    using init_retained [OF s] by blast
  obtain f3 w3 where 3: "ModbusServerFactory_init demo idle_world (Some 0) None
      (OtherObject ''vendor'') = Inr (f3, w3)"
    using init_retained [OF s] by blast
  have "Identity (control f1) = [(0, ''vendor'')]"
    using identity_applied_iff_instance [OF 1] d by auto
  moreover have "Identity (control f2) = []"
    using identity_applied_iff_instance [OF 2] d by auto
  moreover have "Identity (control f3) = []"
    using identity_applied_iff_instance [OF 3] d by auto
  ultimately show ?thesis using 1 2 3 by blast
qed

text \<open>
  C9. Started without a \<open>framer\<close> argument, the serial server builds its protocol from
  a factory whose framer is \<open>ModbusAsciiFramer\<close> and opens the port at
  \<open>Defaults.Baudrate\<close>; the baud rate is that constant whatever the arguments are.
\<close>

theorem serial_server_defaults:
  assumes "map_of kwargs ''device'' = Some device"
      and "context = None \<or> (\<exists>r st. context = Some r \<and> stores w r = Some st)"
  shows "(\<exists>port w'. StartSerialServer C w context identity Omitted kwargs = Inr (port, w') \<and>
            ModbusServerFactory.framer (factory (sp_protocol port)) = ModbusAsciiFramer \<and>
            sp_baudrate port = Defaults_Baudrate C \<and> sp_device port = device) \<and>
         (\<forall>framer_arg port w'.
            StartSerialServer C w context identity framer_arg kwargs = Inr (port, w') \<longrightarrow>
            sp_baudrate port = Defaults_Baudrate C)"
proof -
  let ?w1 = "w\<lparr>log := log w @ [StartingSerial device]\<rparr>"
  have "\<exists>f w'. ModbusServerFactory_init C ?w1 context (Some ModbusAsciiFramer) identity =
          Inr (f, w') \<and> ModbusServerFactory.framer f = ModbusAsciiFramer"
  proof -
    consider (none) "context = None"
      | (falsy) r st where "context = Some r" "stores w r = Some st" "\<not> context_truth C st"
      | (truthy) r st where "context = Some r" "stores w r = Some st" "context_truth C st"
      using assms(2) by blast
    then show ?thesis
    proof cases
      case none
      then show ?thesis
        using init_fresh [of "context" "?w1" C "Some ModbusAsciiFramer" identity] by simp
    next
      case falsy
      then show ?thesis
        using init_fresh [of "context" "?w1" C "Some ModbusAsciiFramer" identity] by simp
    next
      case truthy
      then show ?thesis
        using init_retained [of "?w1" r st C "Some ModbusAsciiFramer" identity] by simp
    qed
  qed
  then have 1: "\<exists>port w'. StartSerialServer C w context identity Omitted kwargs = Inr (port, w') \<and>
            ModbusServerFactory.framer (factory (sp_protocol port)) = ModbusAsciiFramer \<and>
            sp_baudrate port = Defaults_Baudrate C \<and> sp_device port = device"
    using assms(1) by (auto simp add: StartSerialServer_def Let_def buildProtocol_def)
  have 2: "sp_baudrate port = Defaults_Baudrate C"
    if "StartSerialServer C w context identity framer_arg kwargs = Inr (port, w')"
    for framer_arg port w'
    using that assms(1)
    by (auto simp add: StartSerialServer_def Let_def split: sum.splits)
  show ?thesis using 1 2 by blast
qed

theorem serial_server_defaults_witness:
  "\<exists>port w'. StartSerialServer demo idle_world (Some 0) PyNone Omitted serial_kwargs =
      Inr (port, w') \<and>
     ModbusServerFactory.framer (factory (sp_protocol port)) = ModbusAsciiFramer \<and>
     sp_baudrate port = 19200 \<and> sp_device port = ''/dev/ttyS0''"
proof -
  have k: "map_of serial_kwargs ''device'' = Some ''/dev/ttyS0''"
    by (simp add: serial_kwargs_def)
  have c: "Some (0::nat) = None \<or>
           (\<exists>r st. Some 0 = Some r \<and> stores idle_world r = Some st)"
    by (simp add: idle_world_def)
  have "Defaults_Baudrate demo = 19200" by (simp add: demo_def)
  then show ?thesis
    using serial_server_defaults [OF k c, of demo PyNone] by auto
qed

text \<open>
  C10. When the store given to the factory is false (it is \<open>None\<close>, or it is a datastore
  context whose truth value is false) the factory's store is a new, empty datastore
  context: an object that did not exist before and is not the one given, which stays in
  the heap as it was.
\<close>

theorem falsy_store_is_replaced:
  assumes "store_arg = None \<or>
           (\<exists>r st. store_arg = Some r \<and> stores w r = Some st \<and> \<not> context_truth C st)"
      and "stores_allocated w"
  shows "\<exists>f w'. ModbusServerFactory_init C w store_arg framer_arg identity = Inr (f, w') \<and>
           store f = Suc (next_ref w) \<and>
           stores w (store f) = None \<and>
           stores w' (store f) = Some [] \<and>
           store_arg \<noteq> Some (store f) \<and>
           (\<forall>r. r \<noteq> store f \<longrightarrow> stores w' r = stores w r)"
proof -
  have n: "stores w (Suc (next_ref w)) = None"
    using stores_allocated_fresh [OF assms(2)] .
  have "store_arg \<noteq> Some (Suc (next_ref w))"
    using assms(1) n by auto
  then show ?thesis
    using init_fresh [OF assms(1), of framer_arg identity] n
    by (simp add: ModbusServerContext_new_def)
qed

theorem falsy_store_is_replaced_witness:
  "stores falsy_world 0 = Some [] \<and> \<not> context_truth demo [] \<and>
   (\<exists>f w'. ModbusServerFactory_init demo falsy_world (Some 0) None PyNone = Inr (f, w') \<and>
      store f = 2 \<and> stores falsy_world 2 = None \<and> stores w' 2 = Some [] \<and>
      stores w' 0 = Some [])"
proof -
  have s: "stores falsy_world 0 = Some []" "\<not> context_truth demo []"
          "next_ref falsy_world = 1"
    by (simp_all add: falsy_world_def demo_def)
  have a: "stores_allocated falsy_world"
    by (simp add: stores_allocated_def falsy_world_def)
  have h: "Some (0::nat) = None \<or>
           (\<exists>r st. Some 0 = Some r \<and> stores falsy_world r = Some st \<and> \<not> context_truth demo st)"
    using s by simp
  from falsy_store_is_replaced [OF h a, of None PyNone] s
  show ?thesis by (auto simp add: numeral_2_eq_2)
qed

end
